theory Spec2Isabelle
  imports Main
begin

section \<open>Python strings and integers\<close>

text \<open>
  The module \<^verbatim>\<open>astropy_helpers/version_helpers.py\<close> works on Python strings. A string is
  a \<^typ>\<open>string\<close> here (ASCII), and the few methods of \<^verbatim>\<open>str\<close> the module calls are
  written out. Exceptions are values of \<open>py_error\<close>; a function that can raise returns
  \<open>py_error + 'a\<close>.
\<close>

datatype py_error =
  SystemExit int | ImportError | AttributeError | ValueError | OSError | SyntaxError

definition dq :: string where
  "dq = [CHR 0x22]"

definition nl :: string where
  "nl = [CHR 0x0A]"

text \<open>\<^verbatim>\<open>s.startswith(p)\<close>\<close>

definition startswith :: "string \<Rightarrow> string \<Rightarrow> bool" where
  "startswith s p = (take (length p) s = p)"

text \<open>\<^verbatim>\<open>p in s\<close> on strings: \<open>p\<close> occurs in \<open>s\<close> as a contiguous substring.\<close>

fun contains :: "string \<Rightarrow> string \<Rightarrow> bool" where
  "contains [] p = (p = [])"
| "contains (c # cs) p = (startswith (c # cs) p \<or> contains cs p)"

text \<open>\<^verbatim>\<open>s.split(c)\<close> for a one-character separator: never empty, \<^verbatim>\<open>''.split('.') == ['']\<close>.\<close>

fun split_on :: "char \<Rightarrow> string \<Rightarrow> string list" where
  "split_on c [] = [[]]"
| "split_on c (x # xs) =
     (if x = c then [] # split_on c xs
      else (case split_on c xs of [] \<Rightarrow> [[x]] | y # ys \<Rightarrow> (x # y) # ys))"

text \<open>\<^verbatim>\<open>sep.join(xs)\<close>\<close>

fun join_with :: "string \<Rightarrow> string list \<Rightarrow> string" where
  "join_with sep [] = []"
| "join_with sep [x] = x"
| "join_with sep (x # y # ys) = x @ sep @ join_with sep (y # ys)"

text \<open>\<^verbatim>\<open>s.replace(a, b)\<close> for one-character \<open>a\<close> and \<open>b\<close>.\<close>

definition replace_char :: "char \<Rightarrow> char \<Rightarrow> string \<Rightarrow> string" where
  "replace_char a b s = map (\<lambda>c. if c = a then b else c) s"

text \<open>\<^verbatim>\<open>s.lower()\<close> on ASCII.\<close>

definition lower_char :: "char \<Rightarrow> char" where
  "lower_char c =
     (case map_of (zip ''ABCDEFGHIJKLMNOPQRSTUVWXYZ'' ''abcdefghijklmnopqrstuvwxyz'') c of
        None \<Rightarrow> c | Some l \<Rightarrow> l)"

definition lower :: "string \<Rightarrow> string" where
  "lower s = map lower_char s"

definition is_digit :: "char \<Rightarrow> bool" where
  "is_digit c = (c \<in> set ''0123456789'')"

definition is_space :: "char \<Rightarrow> bool" where
  "is_space c =
     (c \<in> set [CHR 0x09, CHR 0x0A, CHR 0x0B, CHR 0x0C, CHR 0x0D,
                CHR 0x1C, CHR 0x1D, CHR 0x1E, CHR 0x1F, CHR 0x20])"

text \<open>The whitespace that \<^verbatim>\<open>int\<close> skips around a number: tab, LF, VT, FF, CR and space.\<close>

definition is_int_space :: "char \<Rightarrow> bool" where
  "is_int_space c = (c \<in> set [CHR 0x09, CHR 0x0A, CHR 0x0B, CHR 0x0C, CHR 0x0D, CHR 0x20])"

definition strip :: "string \<Rightarrow> string" where
  "strip s = rev (dropWhile is_int_space (rev (dropWhile is_int_space s)))"

definition digit_val :: "char \<Rightarrow> nat" where
  "digit_val c = of_char c - 48"

definition digits_val :: "string \<Rightarrow> nat" where
  "digits_val s = foldl (\<lambda>a c. 10 * a + digit_val c) 0 s"

text \<open>
  \<^verbatim>\<open>int(s)\<close> on a string: surrounding whitespace is stripped, one sign is allowed, and
  the digits may be grouped by single underscores; anything else raises
  \<^verbatim>\<open>ValueError\<close>.
\<close>

definition int_body_ok :: "string \<Rightarrow> bool" where
  "int_body_ok s = list_all (\<lambda>g. g \<noteq> [] \<and> list_all is_digit g) (split_on CHR ''_'' s)"

definition int_body_val :: "string \<Rightarrow> int" where
  "int_body_val s = int (digits_val (filter (\<lambda>c. c \<noteq> CHR ''_'') s))"

definition py_int :: "string \<Rightarrow> py_error + int" where
  "py_int s =
     (let t = strip s in
      if startswith t ''-'' then
        (if int_body_ok (tl t) then Inr (- int_body_val (tl t)) else Inl ValueError)
      else if startswith t ''+'' then
        (if int_body_ok (tl t) then Inr (int_body_val (tl t)) else Inl ValueError)
      else
        (if int_body_ok t then Inr (int_body_val t) else Inl ValueError))"

text \<open>\<^verbatim>\<open>str(n)\<close> for an integer.\<close>

fun show_nat :: "nat \<Rightarrow> string" where
  "show_nat n =
     (if n < 10 then [''0123456789'' ! n]
      else show_nat (n div 10) @ [''0123456789'' ! (n mod 10)])"

declare show_nat.simps [simp del]

definition show_int :: "int \<Rightarrow> string" where
  "show_int i = (if i < 0 then ''-'' @ show_nat (nat (- i)) else show_nat (nat i))"

text \<open>\<^verbatim>\<open>str(b)\<close> for a boolean.\<close>

definition show_bool :: "bool \<Rightarrow> string" where
  "show_bool b = (if b then ''True'' else ''False'')"


section \<open>Splitting a version string\<close>

text \<open>
  \<^verbatim>\<open>pkg_resources.parse_version\<close> is a library function. The module looks at its result
  in two ways: an object with a \<^verbatim>\<open>base_version\<close> attribute (setuptools from 8.0 on), or
  a tuple of string parts (older setuptools), in which every part that is not a number
  starts with \<^verbatim>\<open>*\<close>.
\<close>

datatype parsed_version = BaseVersion string | Parts "string list"

text \<open>\<^verbatim>\<open>[int(part) for part in parts]\<close>\<close>

fun int_parts :: "string list \<Rightarrow> py_error + int list" where
  "int_parts [] = Inr []"
| "int_parts (p # ps) =
     (case py_int p of
        Inl e \<Rightarrow> Inl e
      | Inr n \<Rightarrow> (case int_parts ps of Inl e \<Rightarrow> Inl e | Inr ns \<Rightarrow> Inr (n # ns)))"

text \<open>
  The loop over the parts of an old-style parsed version: it stops at the first part
  that starts with \<^verbatim>\<open>*\<close>.
\<close>

fun legacy_parts :: "string list \<Rightarrow> py_error + int list" where
  "legacy_parts [] = Inr []"
| "legacy_parts (p # ps) =
     (if startswith p ''*'' then Inr []
      else (case py_int p of
              Inl e \<Rightarrow> Inl e
            | Inr n \<Rightarrow> (case legacy_parts ps of Inl e \<Rightarrow> Inl e | Inr ns \<Rightarrow> Inr (n # ns))))"

text \<open>
  \<^verbatim>\<open>_version_split(version)\<close>. The library's parser is the first argument. The result is
  the Python tuple \<^verbatim>\<open>tuple(parts[:3])\<close>, as a list.
\<close>

definition version_split :: "(string \<Rightarrow> parsed_version) \<Rightarrow> string \<Rightarrow> py_error + int list" where
  "version_split parse version =
     (case (case parse version of
              BaseVersion base_version \<Rightarrow>
                if base_version \<noteq> [] then int_parts (split_on CHR ''.'' base_version)
                else Inr []
            | Parts ps \<Rightarrow> legacy_parts ps) of
        Inl e \<Rightarrow> Inl e
      | Inr parts \<Rightarrow>
          Inr (take 3 (if length parts < 3 then parts @ replicate (3 - length parts) 0
                       else parts)))"


subsection \<open>The library's parser\<close>

text \<open>
  A model of \<^verbatim>\<open>pkg_resources.parse_version\<close> as setuptools 8.0 and later (with
  \<^verbatim>\<open>packaging\<close> before 22) has it: a string that matches the version pattern of PEP 440
  becomes a \<^verbatim>\<open>Version\<close>, whose \<^verbatim>\<open>base_version\<close> is the epoch (when not 0) and the
  release numbers joined by dots; any other string becomes a \<^verbatim>\<open>LegacyVersion\<close>, whose
  \<^verbatim>\<open>base_version\<close> is the string itself. The pattern is matched case-insensitively
  between optional whitespace. What follows the release segment is matched as a regular
  expression, by derivatives.
\<close>

datatype rx = Nul | Eps | Cls string | Alt rx rx | Cat rx rx | Rep rx

fun nullable :: "rx \<Rightarrow> bool" where
  "nullable Nul = False"
| "nullable Eps = True"
| "nullable (Cls cs) = False"
| "nullable (Alt r s) = (nullable r \<or> nullable s)"
| "nullable (Cat r s) = (nullable r \<and> nullable s)"
| "nullable (Rep r) = True"

fun deriv :: "char \<Rightarrow> rx \<Rightarrow> rx" where
  "deriv c Nul = Nul"
| "deriv c Eps = Nul"
| "deriv c (Cls cs) = (if c \<in> set cs then Eps else Nul)"
| "deriv c (Alt r s) = Alt (deriv c r) (deriv c s)"
| "deriv c (Cat r s) =
     (if nullable r then Alt (Cat (deriv c r) s) (deriv c s) else Cat (deriv c r) s)"
| "deriv c (Rep r) = Cat (deriv c r) (Rep r)"

fun rx_match :: "rx \<Rightarrow> string \<Rightarrow> bool" where
  "rx_match r [] = nullable r"
| "rx_match r (c # cs) = rx_match (deriv c r) cs"

definition lit :: "string \<Rightarrow> rx" where
  "lit s = foldr (\<lambda>c r. Cat (Cls [c]) r) s Eps"

definition alts :: "string list \<Rightarrow> rx" where
  "alts ws = foldr (\<lambda>w r. Alt (lit w) r) ws Nul"

definition opt :: "rx \<Rightarrow> rx" where
  "opt r = Alt r Eps"

definition plus_rx :: "rx \<Rightarrow> rx" where
  "plus_rx r = Cat r (Rep r)"

definition rx_sep :: rx where
  "rx_sep = opt (Cls ''-_.'')"

definition rx_num :: rx where
  "rx_num = plus_rx (Cls ''0123456789'')"

definition rx_alnum :: rx where
  "rx_alnum = plus_rx (Cls ''abcdefghijklmnopqrstuvwxyz0123456789'')"

definition rx_pre :: rx where
  "rx_pre =
     Cat rx_sep (Cat (alts [''a'', ''b'', ''c'', ''rc'', ''alpha'', ''beta'', ''pre'', ''preview''])
       (Cat rx_sep (opt rx_num)))"

definition rx_post :: rx where
  "rx_post =
     Alt (Cat (Cls ''-'') rx_num)
         (Cat rx_sep (Cat (alts [''post'', ''rev'', ''r'']) (Cat rx_sep (opt rx_num))))"

definition rx_dev :: rx where
  "rx_dev = Cat rx_sep (Cat (lit ''dev'') (Cat rx_sep (opt rx_num)))"

definition rx_local :: rx where
  "rx_local = Cat (Cls ''+'') (Cat rx_alnum (Rep (Cat (Cls ''-_.'') rx_alnum)))"

definition rx_tail :: rx where
  "rx_tail =
     Cat (opt rx_pre) (Cat (opt rx_post) (Cat (opt rx_dev) (Cat (opt rx_local)
       (Rep (Cls [CHR 0x09, CHR 0x0A, CHR 0x0B, CHR 0x0C, CHR 0x0D,
                  CHR 0x1C, CHR 0x1D, CHR 0x1E, CHR 0x1F, CHR 0x20])))))"

text \<open>
  The release segment \<^verbatim>\<open>[0-9]+(\.[0-9]+)*\<close> at the start of a string, as long as it
  can be, and what is left.
\<close>

definition release_of :: "string \<Rightarrow> (string list \<times> string) option" where
  "release_of s =
     (let comps = takeWhile (\<lambda>g. g \<noteq> [])
                    (split_on CHR ''.'' (takeWhile (\<lambda>c. is_digit c \<or> c = CHR ''.'') s))
      in if comps = [] then None
         else Some (comps, drop (length (join_with ''.'' comps)) s))"

definition pep440 :: "string \<Rightarrow> (nat \<times> nat list) option" where
  "pep440 version =
     (let s = lower (dropWhile is_space version);
          s1 = (if startswith s ''v'' then drop 1 s else s);
          d = takeWhile is_digit s1;
          r = dropWhile is_digit s1;
          has_epoch = (d \<noteq> [] \<and> startswith r ''!'')
      in case release_of (if has_epoch then drop 1 r else s1) of
           None \<Rightarrow> None
         | Some (rel, rest) \<Rightarrow>
             if rx_match rx_tail rest
             then Some (if has_epoch then digits_val d else 0, map digits_val rel)
             else None)"

definition parse_version :: "string \<Rightarrow> parsed_version" where
  "parse_version version =
     (case pep440 version of
        None \<Rightarrow> BaseVersion version
      | Some (epoch, rel) \<Rightarrow>
          BaseVersion ((if epoch \<noteq> 0 then show_nat epoch @ ''!'' else [])
                       @ join_with ''.'' (map show_nat rel)))"


section \<open>The text of the generated module\<close>

text \<open>
  The three templates of the module, each as the function that \<^verbatim>\<open>str.format\<close> makes of
  it. \<^verbatim>\<open>{timestamp!s}\<close> and \<^verbatim>\<open>{timestamp!r}\<close> are the two renderings of the build time.
\<close>

text \<open>The keyword arguments of \<^verbatim>\<open>_FROZEN_VERSION_PY_TEMPLATE.format\<close>, rendered.\<close>

record template_fields =
  t_packagetitle :: string
  t_timestamp_s :: string
  t_timestamp_r :: string
  t_header :: string
  t_major :: string
  t_minor :: string
  t_bugfix :: string
  t_ahver :: string
  t_rel :: string
  t_debug :: string

definition FROZEN_VERSION_PY_TEMPLATE :: "template_fields \<Rightarrow> string" where
  "FROZEN_VERSION_PY_TEMPLATE f =
     ''# Autogenerated by '' @ t_packagetitle f @ [CHR 0x27] @ ''s setup.py on ''
       @ t_timestamp_s f @ '' UTC\<newline>''
     @ ''from __future__ import unicode_literals\<newline>''
     @ ''import datetime\<newline>''
     @ ''\<newline>''
     @ t_header f @ ''\<newline>''
     @ ''\<newline>''
     @ ''major = '' @ t_major f @ ''\<newline>''
     @ ''minor = '' @ t_minor f @ ''\<newline>''
     @ ''bugfix = '' @ t_bugfix f @ ''\<newline>''
     @ ''\<newline>''
     @ ''version_info = (major, minor, bugfix)\<newline>''
     @ ''\<newline>''
     @ ''release = '' @ t_rel f @ ''\<newline>''
     @ ''timestamp = '' @ t_timestamp_r f @ ''\<newline>''
     @ ''debug = '' @ t_debug f @ ''\<newline>''
     @ ''\<newline>''
     @ ''astropy_helpers_version = '' @ dq @ t_ahver f @ dq @ ''\<newline>''"

definition FROZEN_VERSION_PY_WITH_GIT_HEADER ::
  "string \<Rightarrow> string \<Rightarrow> string \<Rightarrow> string \<Rightarrow> string" where
  "FROZEN_VERSION_PY_WITH_GIT_HEADER git_helpers packagename verstr githash =
     git_helpers @ ''\<newline>''
     @ ''\<newline>''
     @ ''\<newline>''
     @ ''_packagename = '' @ dq @ packagename @ dq @ ''\<newline>''
     @ ''_last_generated_version = '' @ dq @ verstr @ dq @ ''\<newline>''
     @ ''_last_githash = '' @ dq @ githash @ dq @ ''\<newline>''
     @ ''\<newline>''
     @ ''# Determine where the source code for this module\<newline>''
     @ ''# lives.  If __file__ is not a filesystem path then\<newline>''
     @ ''# it is assumed not to live in a git repo at all.\<newline>''
     @ ''if _get_repo_path(__file__, levels=len(_packagename.split('.'))):\<newline>''
     @ ''    version = update_git_devstr(_last_generated_version, path=__file__)\<newline>''
     @ ''    githash = get_git_devstr(sha=True, show_warning=False,\<newline>''
     @ ''                             path=__file__) or _last_githash\<newline>''
     @ ''else:\<newline>''
     @ ''    # The file does not appear to live in a git repo so don't bother\<newline>''
     @ ''    # invoking git\<newline>''
     @ ''    version = _last_generated_version\<newline>''
     @ ''    githash = _last_githash\<newline>''"

definition FROZEN_VERSION_PY_STATIC_HEADER :: "string \<Rightarrow> string \<Rightarrow> string" where
  "FROZEN_VERSION_PY_STATIC_HEADER verstr githash =
     ''version = '' @ dq @ verstr @ dq @ ''\<newline>''
     @ ''githash = '' @ dq @ githash @ dq @ ''\<newline>''"

text \<open>A value that is \<^verbatim>\<open>None\<close> or a string, as \<^verbatim>\<open>str.format\<close> renders it.\<close>

definition format_opt :: "string option \<Rightarrow> string" where
  "format_opt v = (case v of None \<Rightarrow> ''None'' | Some s \<Rightarrow> s)"

text \<open>\<^verbatim>\<open>s.splitlines()\<close> on ASCII; the first argument is the line read so far, reversed.\<close>

definition is_linebreak :: "char \<Rightarrow> bool" where
  "is_linebreak c = (c \<in> set [CHR 0x0A, CHR 0x0B, CHR 0x0C, CHR 0x1C, CHR 0x1D, CHR 0x1E])"

fun lines_from :: "string \<Rightarrow> string \<Rightarrow> string list" where
  "lines_from acc [] = (if acc = [] then [] else [rev acc])"
| "lines_from acc (c # cs) =
     (if c = CHR 0x0D then
        (case cs of
           [] \<Rightarrow> [rev acc]
         | d # ds \<Rightarrow> if d = CHR 0x0A then rev acc # lines_from [] ds
                    else rev acc # lines_from [] (d # ds))
      else if is_linebreak c then rev acc # lines_from [] cs
      else lines_from (c # acc) cs)"

definition splitlines :: "string \<Rightarrow> string list" where
  "splitlines s = lines_from [] s"


section \<open>The collaborators\<close>

text \<open>
  The attributes of a generated version module that \<^verbatim>\<open>generate_version_py\<close> reads;
  \<^verbatim>\<open>None\<close> is an attribute the module does not have.
\<close>

record version_module =
  vm_last_generated_version :: "string option"
  vm_version :: "string option"
  vm_last_githash :: "string option"
  vm_githash :: "string option"
  vm_release :: "bool option"
  vm_debug :: "bool option"

text \<open>
  What the module takes from outside: the options of \<^verbatim>\<open>setup.cfg\<close> by section and name
  as \<^verbatim>\<open>ConfigParser\<close> returns them, the two answers of \<^verbatim>\<open>git_helpers.get_git_devstr\<close>
  (the development suffix and the commit hash, each empty when git gives none), the
  source text of \<^verbatim>\<open>git_helpers\<close> as its loader returns it, the version of the helpers
  package (\<^verbatim>\<open>None\<close> when its import fails), the build time in its two renderings, the
  library's version parser, which paths can be opened for writing, and what executing
  the text of a module file gives: the module, or the exception Python raises (a
  \<^verbatim>\<open>SyntaxError\<close> for a text that is not Python).
\<close>

record env =
  setup_cfg :: "string \<Rightarrow> string \<Rightarrow> string option"
  git_devstr :: string
  git_sha :: string
  git_helpers_source :: "string option"
  helpers_version :: "string option"
  timestamp_str :: string
  timestamp_repr :: string
  parser :: "string \<Rightarrow> parsed_version"
  writable :: "string \<Rightarrow> bool"
  exec_module :: "string \<Rightarrow> py_error + version_module"

text \<open>
  The files under the working directory by their path components, the texts written
  with \<^verbatim>\<open>f.write\<close> in order, and the lines printed to \<^verbatim>\<open>sys.stderr\<close>.
\<close>

record world =
  files :: "string list \<Rightarrow> string option"
  write_log :: "(string \<times> string) list"
  stderr :: "string list"


section \<open>Rendering the module\<close>

text \<open>
  The loop of \<^verbatim>\<open>_generate_git_header\<close> that looks for the line starting with
  \<^verbatim>\<open># BEGIN\<close>: \<open>idx\<close> is the index of that line, or of the last line when there is
  none.
\<close>

fun begin_index :: "nat \<Rightarrow> string list \<Rightarrow> nat" where
  "begin_index idx [] = idx"
| "begin_index idx (line # rest) =
     (if startswith line ''# BEGIN'' then idx
      else if rest = [] then idx
      else begin_index (Suc idx) rest)"

text \<open>\<^verbatim>\<open>_generate_git_header(packagename, version, githash)\<close>\<close>

definition generate_git_header :: "env \<Rightarrow> string \<Rightarrow> string \<Rightarrow> string option \<Rightarrow> string" where
  "generate_git_header e packagename version githash =
     (let source = (case git_helpers_source e of None \<Rightarrow> [] | Some s \<Rightarrow> s);
          source_lines = splitlines source
      in if source_lines = [] then []
         else
           let idx = begin_index 0 source_lines;
               git_helpers_py = join_with nl (drop (idx + 1) source_lines);
               verstr = version;
               new_githash = git_sha e;
               githash' = (if new_githash \<noteq> [] then Some new_githash else githash)
           in FROZEN_VERSION_PY_WITH_GIT_HEADER git_helpers_py packagename verstr
                (format_opt githash'))"

text \<open>
  \<^verbatim>\<open>_get_version_py_str(packagename, version, githash, release, debug, uses_git)\<close>.
  The unpacking \<^verbatim>\<open>major, minor, bugfix = _version_split(version)\<close> needs three values.
\<close>

definition get_version_py_str ::
  "env \<Rightarrow> string \<Rightarrow> string \<Rightarrow> string option \<Rightarrow> bool \<Rightarrow> bool \<Rightarrow> bool \<Rightarrow> py_error + string" where
  "get_version_py_str e packagename version githash release debug uses_git =
     (let ahver = (case helpers_version e of None \<Rightarrow> ''unknown'' | Some v \<Rightarrow> v) in
      case version_split (parser e) version of
        Inl err \<Rightarrow> Inl err
      | Inr [major, minor, bugfix] \<Rightarrow>
          let packagetitle =
                (if lower packagename = ''astropy'' then ''Astropy''
                 else ''Astropy-affiliated package '' @ packagename);
              header = (if uses_git then generate_git_header e packagename version githash
                        else []);
              githash' = (if \<not> uses_git \<and> (githash = None \<or> githash = Some [])
                          then Some (git_sha e) else githash);
              header' = (if header = []
                         then FROZEN_VERSION_PY_STATIC_HEADER version (format_opt githash')
                         else header)
          in Inr (FROZEN_VERSION_PY_TEMPLATE
                    \<lparr>t_packagetitle = packagetitle, t_timestamp_s = timestamp_str e,
                     t_timestamp_r = timestamp_repr e, t_header = header',
                     t_major = show_int major, t_minor = show_int minor,
                     t_bugfix = show_int bugfix, t_ahver = ahver,
                     t_rel = show_bool release, t_debug = show_bool debug\<rparr>)
      | Inr _ \<Rightarrow> Inl ValueError)"


section \<open>Files and the previously generated module\<close>

text \<open>\<^verbatim>\<open>os.path.join(a, *ps)\<close> on POSIX paths.\<close>

definition path_join2 :: "string \<Rightarrow> string \<Rightarrow> string" where
  "path_join2 path b =
     (if startswith b ''/'' then b
      else if path = [] \<or> last path = CHR ''/'' then path @ b
      else path @ ''/'' @ b)"

definition path_join :: "string \<Rightarrow> string list \<Rightarrow> string" where
  "path_join a ps = foldl path_join2 a ps"

text \<open>
  The file a path names: its components, without the empty ones and without \<^verbatim>\<open>.\<close>; an
  absolute path keeps its root. Paths with \<^verbatim>\<open>..\<close> or through links are not identified.
\<close>

definition resolve :: "string \<Rightarrow> string list" where
  "resolve path =
     (if startswith path ''/'' then [''/''] else [])
     @ filter (\<lambda>c. c \<noteq> [] \<and> c \<noteq> ''.'') (split_on CHR ''/'' path)"

text \<open>
  Modelled from the spec: \<^verbatim>\<open>utils.import_file\<close> is imported by the module but is not
  among the sources. The spec's \<^verbatim>\<open>loadPriorRecord\<close> gives the previously generated
  module, absent if none exists, and \<^verbatim>\<open>get_pkg_version_module\<close> documents the signal: an
  \<^verbatim>\<open>ImportError\<close> when the version module is not found. For a file that exists the
  result is what executing its text gives, an exception included.
\<close>

definition import_file :: "env \<Rightarrow> world \<Rightarrow> string \<Rightarrow> py_error + version_module" where
  "import_file e w filename =
     (case files w (resolve filename) of
        None \<Rightarrow> Inl ImportError
      | Some text \<Rightarrow> exec_module e text)"

text \<open>\<^verbatim>\<open>get_pkg_version_module(packagename)\<close>, as it is called here: without \<^verbatim>\<open>fromlist\<close>.\<close>

definition get_pkg_version_module :: "env \<Rightarrow> world \<Rightarrow> string \<Rightarrow> py_error + version_module" where
  "get_pkg_version_module e w packagename =
     import_file e w (path_join packagename [''version.py''])"


section \<open>Generating the version module\<close>

text \<open>
  The arguments of \<^verbatim>\<open>generate_version_py\<close>; \<^verbatim>\<open>None\<close> is an argument left at its
  default.
\<close>

record args =
  arg_packagename :: "string option"
  arg_version :: "string option"
  arg_release :: "bool option"
  arg_debug :: "bool option"
  arg_uses_git :: "bool option"
  arg_srcdir :: string

text \<open>
  The local variables of \<^verbatim>\<open>generate_version_py\<close> when it decides whether to write.
\<close>

record locals =
  l_packagename :: string
  l_version :: string
  l_release :: bool
  l_debug :: bool
  l_uses_git :: bool
  l_version_module :: "version_module option"
  l_last_generated_version :: "string option"
  l_last_githash :: "string option"
  l_current_release :: "bool option"
  l_current_debug :: "bool option"
  l_version_py :: string

text \<open>\<^verbatim>\<open>bool(x)\<close> for \<open>x\<close> that is \<^verbatim>\<open>None\<close> or a boolean.\<close>

definition truthy :: "bool option \<Rightarrow> bool" where
  "truthy x = (case x of None \<Rightarrow> False | Some b \<Rightarrow> b)"

text \<open>
  Reading \<^verbatim>\<open>setup.cfg\<close>: the package name, the version and \<^verbatim>\<open>add_git_devstr\<close>, or the
  line printed to \<^verbatim>\<open>sys.stderr\<close> before \<^verbatim>\<open>sys.exit(1)\<close>.
\<close>

definition read_config :: "env \<Rightarrow> args \<Rightarrow> string + (string \<times> string \<times> bool)" where
  "read_config e a =
     (case (case setup_cfg e ''metadata'' ''name'' of
              Some n \<Rightarrow> Some n
            | None \<Rightarrow>
                (case setup_cfg e ''metadata'' ''package_name'' of
                   Some n \<Rightarrow> Some n
                 | None \<Rightarrow> arg_packagename a)) of
        None \<Rightarrow> Inl ''ERROR: Could not read package name from setup.cfg''
      | Some packagename \<Rightarrow>
          (case setup_cfg e ''metadata'' ''version'' of
             Some v \<Rightarrow> Inr (packagename, v, True)
           | None \<Rightarrow>
               (case arg_version a of
                  Some v \<Rightarrow> Inr (packagename, v, False)
                | None \<Rightarrow> Inl ''ERROR: Could not read package version from setup.cfg'')))"

text \<open>
  The \<^verbatim>\<open>try\<close> block that reads the previously generated module: only an
  \<^verbatim>\<open>ImportError\<close> is caught; an attribute that is missing after its fallback raises
  \<^verbatim>\<open>AttributeError\<close>. The result is \<^verbatim>\<open>version_module\<close>, \<^verbatim>\<open>last_generated_version\<close>,
  \<^verbatim>\<open>last_githash\<close>, \<^verbatim>\<open>current_release\<close> and \<^verbatim>\<open>current_debug\<close>.
\<close>

definition load_prior ::
  "env \<Rightarrow> world \<Rightarrow> string \<Rightarrow>
     py_error + (version_module option \<times> string option \<times> string option \<times> bool option \<times> bool option)"
  where
  "load_prior e w packagename =
     (case get_pkg_version_module e w packagename of
        Inl err \<Rightarrow> if err = ImportError then Inr (None, None, None, None, None) else Inl err
      | Inr m \<Rightarrow>
          (case (case vm_last_generated_version m of Some v \<Rightarrow> Some v | None \<Rightarrow> vm_version m) of
             None \<Rightarrow> Inl AttributeError
           | Some last_generated_version \<Rightarrow>
               (case (case vm_last_githash m of Some h \<Rightarrow> Some h | None \<Rightarrow> vm_githash m) of
                  None \<Rightarrow> Inl AttributeError
                | Some last_githash \<Rightarrow>
                    (case vm_release m of
                       None \<Rightarrow> Inl AttributeError
                     | Some current_release \<Rightarrow>
                         (case vm_debug m of
                            None \<Rightarrow> Inl AttributeError
                          | Some current_debug \<Rightarrow>
                              Inr (Some m, Some last_generated_version, Some last_githash,
                                   Some current_release, Some current_debug))))))"

text \<open>
  The body of \<^verbatim>\<open>generate_version_py\<close> from the release flag to the path of
  \<^verbatim>\<open>version.py\<close>, given what \<^verbatim>\<open>setup.cfg\<close> gave. \<^verbatim>\<open>release\<close> is tested against
  \<^verbatim>\<open>None\<close> twice in the source, so it stays an option until the second test.
\<close>

definition gvp_locals :: "env \<Rightarrow> args \<Rightarrow> world \<Rightarrow> string \<Rightarrow> string \<Rightarrow> bool \<Rightarrow> py_error + locals" where
  "gvp_locals e a w packagename0 version0 add_git_devstr =
     (let release1 = (case arg_release a of
                        None \<Rightarrow> Some (\<not> contains version0 ''dev'')
                      | Some r \<Rightarrow> Some r);
          version = (if \<not> truthy release1 \<and> add_git_devstr then version0 @ git_devstr e
                     else version0);
          uses_git = (case arg_uses_git a of None \<Rightarrow> \<not> truthy release1 | Some u \<Rightarrow> u);
          packagename = replace_char CHR ''-'' CHR ''_'' packagename0
      in case load_prior e w packagename of
           Inl err \<Rightarrow> Inl err
         | Inr (version_module, last_generated_version, last_githash, current_release,
                current_debug) \<Rightarrow>
             let release = (case release1 of None \<Rightarrow> truthy current_release | Some r \<Rightarrow> r);
                 debug = (case arg_debug a of None \<Rightarrow> truthy current_debug | Some d \<Rightarrow> d);
                 package_srcdir = path_join (arg_srcdir a) (split_on CHR ''.'' packagename);
                 version_py = path_join package_srcdir [''version.py'']
             in Inr \<lparr>l_packagename = packagename, l_version = version, l_release = release,
                     l_debug = debug, l_uses_git = uses_git,
                     l_version_module = version_module,
                     l_last_generated_version = last_generated_version,
                     l_last_githash = last_githash, l_current_release = current_release,
                     l_current_debug = current_debug, l_version_py = version_py\<rparr>)"

text \<open>
  The \<^verbatim>\<open>with open(version_py, 'w')\<close> block: opening truncates the file, then the text is
  rendered and written. When rendering raises, the file stays empty.
\<close>

definition write_version_py :: "env \<Rightarrow> world \<Rightarrow> locals \<Rightarrow> (py_error + string) \<times> world" where
  "write_version_py e w l =
     (if \<not> writable e (l_version_py l) then (Inl OSError, w)
      else
        let w1 = w\<lparr>files := (files w)(resolve (l_version_py l) \<mapsto> [])\<rparr> in
        case get_version_py_str e (l_packagename l) (l_version l) (l_last_githash l)
               (l_release l) (l_debug l) (l_uses_git l) of
          Inl err \<Rightarrow> (Inl err, w1)
        | Inr text \<Rightarrow>
            (Inr (l_version l),
             w1\<lparr>files := (files w1)(resolve (l_version_py l) \<mapsto> text),
                write_log := write_log w1 @ [(l_version_py l, text)]\<rparr>))"

text \<open>
  \<^verbatim>\<open>generate_version_py(packagename, version, release, debug, uses_git, srcdir)\<close>: the
  value returned or the exception raised, and the world afterwards. Warnings and log
  messages are left out.
\<close>

definition generate_version_py :: "env \<Rightarrow> args \<Rightarrow> world \<Rightarrow> (py_error + string) \<times> world" where
  "generate_version_py e a w =
     (case read_config e a of
        Inl msg \<Rightarrow> (Inl (SystemExit 1), w\<lparr>stderr := stderr w @ [msg]\<rparr>)
      | Inr (packagename0, version0, add_git_devstr) \<Rightarrow>
          (case gvp_locals e a w packagename0 version0 add_git_devstr of
             Inl err \<Rightarrow> (Inl err, w)
           | Inr l \<Rightarrow>
               if l_last_generated_version l \<noteq> Some (l_version l)
                  \<or> l_current_release l \<noteq> Some (l_release l)
                  \<or> l_current_debug l \<noteq> Some (l_debug l)
               then write_version_py e w l
               else (Inr (l_version l), w)))"


section \<open>Version strings with numeric components\<close>

text \<open>
  The components of a parsed version that \<^verbatim>\<open>_version_split\<close> turns into numbers: the
  dot-separated pieces of \<^verbatim>\<open>base_version\<close>, or the parts of an old-style tuple before the
  first part that starts with \<^verbatim>\<open>*\<close>. A component is decimal when it is a non-empty
  run of digits.
\<close>

definition decimal :: "string \<Rightarrow> bool" where
  "decimal s = (s \<noteq> [] \<and> list_all is_digit s)"

definition numeric_components :: "parsed_version \<Rightarrow> string list" where
  "numeric_components p =
     (case p of
        BaseVersion base_version \<Rightarrow>
          if base_version = [] then [] else split_on CHR ''.'' base_version
      | Parts ps \<Rightarrow> takeWhile (\<lambda>q. \<not> startswith q ''*'') ps)"


section \<open>An example build\<close>

text \<open>
  A package \<^verbatim>\<open>pkg\<close> at version 1.0, built in a directory that has no generated module
  yet; git is at hand and \<^verbatim>\<open>git_helpers\<close> has its source. The only generated module of
  the example is the one this build writes, so a file that starts with a comment line, as
  the template does, reads as the release module of \<^verbatim>\<open>pkg\<close> 1.0. An empty file executes to
  a module without attributes, and any other text is not Python.
\<close>

definition ex_cfg :: "string \<Rightarrow> string \<Rightarrow> string option" where
  "ex_cfg s k =
     (if s = ''metadata'' \<and> k = ''name'' then Some ''pkg''
      else if s = ''metadata'' \<and> k = ''version'' then Some ''1.0''
      else None)"

definition ex_exec :: "string \<Rightarrow> py_error + version_module" where
  "ex_exec t =
     (if t = [] then
        Inr \<lparr>vm_last_generated_version = None, vm_version = None, vm_last_githash = None,
             vm_githash = None, vm_release = None, vm_debug = None\<rparr>
      else if startswith t ''#'' then
        Inr \<lparr>vm_last_generated_version = None, vm_version = Some ''1.0'',
             vm_last_githash = None, vm_githash = Some ''0f3c'',
             vm_release = Some True, vm_debug = Some False\<rparr>
      else Inl SyntaxError)"

definition ex_env :: env where
  "ex_env =
     \<lparr>setup_cfg = ex_cfg, git_devstr = ''42'', git_sha = ''0f3c'',
      git_helpers_source = Some ''import os\<newline># BEGIN\<newline>def f(): pass\<newline>'',
      helpers_version = Some ''3.1'', timestamp_str = ''2019-01-01 00:00:00'',
      timestamp_repr = ''datetime.datetime(2019, 1, 1, 0, 0)'', parser = parse_version,
      writable = (\<lambda>p. True), exec_module = ex_exec\<rparr>"

definition ex_args :: args where
  "ex_args =
     \<lparr>arg_packagename = None, arg_version = None, arg_release = None, arg_debug = None,
      arg_uses_git = None, arg_srcdir = ''.''\<rparr>"

definition ex_world :: world where
  "ex_world = \<lparr>files = Map.empty, write_log = [], stderr = []\<rparr>"


text \<open>
  More files \<^verbatim>\<open>setup.cfg\<close>: one of a development version, one whose version is not a
  version number, and one that names the package but gives no version.
\<close>

definition ex_dev_cfg :: "string \<Rightarrow> string \<Rightarrow> string option" where
  "ex_dev_cfg s k =
     (if s = ''metadata'' \<and> k = ''name'' then Some ''pkg''
      else if s = ''metadata'' \<and> k = ''version'' then Some ''1.0.dev''
      else None)"


definition ex_name_cfg :: "string \<Rightarrow> string \<Rightarrow> string option" where
  "ex_name_cfg s k = (if s = ''metadata'' \<and> k = ''name'' then Some ''pkg'' else None)"



text \<open>A directory whose \<^verbatim>\<open>pkg/version.py\<close> is not Python, and one where it is empty.\<close>

definition ex_world_garbage :: world where
  "ex_world_garbage =
     \<lparr>files = [[''pkg'', ''version.py''] \<mapsto> ''<<<<<<< HEAD''], write_log = [], stderr = []\<rparr>"

definition ex_world_empty :: world where
  "ex_world_empty = \<lparr>files = [[''pkg'', ''version.py''] \<mapsto> []], write_log = [], stderr = []\<rparr>"


section \<open>The paths and the prior record, in the words of the claims\<close>

text \<open>
  The module name of a package name, the path \<^verbatim>\<open>get_pkg_version_module\<close> reads and the
  path \<^verbatim>\<open>generate_version_py\<close> writes; an attribute with a fallback attribute.
\<close>

definition module_of :: "string \<Rightarrow> string" where
  "module_of p0 = replace_char CHR ''-'' CHR ''_'' p0"

definition prior_path :: "string \<Rightarrow> string" where
  "prior_path p0 = path_join (module_of p0) [''version.py'']"

definition version_py_path :: "args \<Rightarrow> string \<Rightarrow> string" where
  "version_py_path a p0 =
     path_join (path_join (arg_srcdir a) (split_on CHR ''.'' (module_of p0))) [''version.py'']"



section \<open>Properties\<close>

subsection \<open>The previously generated module\<close>

lemma load_prior_shape:
  assumes "load_prior e w p = Inr (vm, lgv, gh, cr, cd)"
  shows "(vm = None \<and> lgv = None \<and> gh = None \<and> cr = None \<and> cd = None
          \<and> get_pkg_version_module e w p = Inl ImportError)
       \<or> (\<exists>m v h r d. vm = Some m \<and> lgv = Some v \<and> gh = Some h \<and> cr = Some r \<and> cd = Some d
          \<and> get_pkg_version_module e w p = Inr m)"
  using assms
  by (auto simp: load_prior_def split: sum.splits option.splits if_splits) metis+

lemma gvp_locals_prior:
  assumes "gvp_locals e a w p0 v0 g = Inr l"
  shows "load_prior e w (replace_char CHR ''-'' CHR ''_'' p0) =
           Inr (l_version_module l, l_last_generated_version l, l_last_githash l,
                l_current_release l, l_current_debug l)"
  using assms
  by (auto simp: gvp_locals_def Let_def split: sum.splits prod.splits)

lemma write_version_py_Inr:
  assumes "write_version_py e w l = (Inr v, w')"
  shows "\<exists>text. get_version_py_str e (l_packagename l) (l_version l) (l_last_githash l)
                  (l_release l) (l_debug l) (l_uses_git l) = Inr text
         \<and> v = l_version l
         \<and> w' = w\<lparr>files := (files w)(resolve (l_version_py l) \<mapsto> text),
                  write_log := write_log w @ [(l_version_py l, text)]\<rparr>"
  using assms
  by (auto simp: write_version_py_def Let_def split: if_splits sum.splits)

lemma load_prior_missing:
  assumes "files w (resolve (prior_path p0)) = None"
  shows "load_prior e w (module_of p0) = Inr (None, None, None, None, None)"
  using assms
  by (simp add: load_prior_def get_pkg_version_module_def import_file_def prior_path_def)


lemma load_prior_raises:
  assumes "files w (resolve (prior_path p0)) = Some t" and "exec_module e t = Inl err"
    and "err \<noteq> ImportError"
  shows "load_prior e w (module_of p0) = Inl err"
  using assms
  by (simp add: load_prior_def get_pkg_version_module_def import_file_def prior_path_def)

lemma gvp_locals_explicit:
  assumes "load_prior e w (module_of p0) = Inr (vm, lgv, gh, cr, cd)"
    and "rel = (case arg_release a of None \<Rightarrow> \<not> contains v0 ''dev'' | Some r \<Rightarrow> r)"
  shows "gvp_locals e a w p0 v0 g =
     Inr \<lparr>l_packagename = module_of p0,
          l_version = (if \<not> rel \<and> g then v0 @ git_devstr e else v0),
          l_release = rel,
          l_debug = (case arg_debug a of None \<Rightarrow> truthy cd | Some d \<Rightarrow> d),
          l_uses_git = (case arg_uses_git a of None \<Rightarrow> \<not> rel | Some u \<Rightarrow> u),
          l_version_module = vm, l_last_generated_version = lgv, l_last_githash = gh,
          l_current_release = cr, l_current_debug = cd,
          l_version_py = version_py_path a p0\<rparr>"
  using assms
  by (auto simp: gvp_locals_def Let_def truthy_def module_of_def version_py_path_def
      split: option.splits)

lemma gvp_locals_raises:
  assumes "load_prior e w (module_of p0) = Inl err"
  shows "gvp_locals e a w p0 v0 g = Inl err"
  using assms by (simp add: gvp_locals_def Let_def module_of_def)

lemma ex_read_config: "read_config ex_env ex_args = Inr (''pkg'', ''1.0'', True)"
  by (simp add: read_config_def ex_env_def ex_cfg_def)

lemma ex_run: "fst (generate_version_py ex_env ex_args ex_world) = Inr ''1.0''"
  by code_simp


lemma ex_facts:
  "arg_release ex_args = None" "arg_debug ex_args = None" "arg_uses_git ex_args = None"
  "\<not> contains ''1.0'' ''dev''" "writable ex_env p" "module_of ''pkg'' = ''pkg''"
  "version_py_path ex_args ''pkg'' = ''./pkg/version.py''"
  "resolve ''./pkg/version.py'' = [''pkg'', ''version.py'']"
  "resolve (prior_path ''pkg'') = [''pkg'', ''version.py'']"
  by (simp_all add: ex_args_def ex_env_def startswith_def module_of_def replace_char_def
      version_py_path_def prior_path_def path_join_def path_join2_def resolve_def)

lemma ex_text: "\<not> isl (get_version_py_str ex_env ''pkg'' ''1.0'' None True False False)"
  by code_simp



subsection \<open>When the module is written\<close>





subsection \<open>The documented examples of the version splitter\<close>

text \<open>
  C3. With the parser of setuptools 8.0 and later, \<^verbatim>\<open>_version_split\<close> gives
  \<^verbatim>\<open>(1, 2, 3)\<close> for \<^verbatim>\<open>'1.2.3'\<close>, \<^verbatim>\<open>(1, 2, 0)\<close> for \<^verbatim>\<open>'1.2'\<close> and for \<^verbatim>\<open>'1.2rc1'\<close>,
  \<^verbatim>\<open>(1, 0, 0)\<close> for \<^verbatim>\<open>'1'\<close> and \<^verbatim>\<open>(0, 0, 0)\<close> for the empty string.
\<close>

theorem version_split_examples:
  "version_split parse_version ''1.2.3'' = Inr [1, 2, 3]
   \<and> version_split parse_version ''1.2'' = Inr [1, 2, 0]
   \<and> version_split parse_version ''1.2rc1'' = Inr [1, 2, 0]
   \<and> version_split parse_version ''1'' = Inr [1, 0, 0]
   \<and> version_split parse_version [] = Inr [0, 0, 0]"
  by code_simp


subsection \<open>Idempotence and the source directory\<close>

text \<open>
  C2. The second of two invocations with the same configuration and the same git state
  is meant to write nothing. \<^verbatim>\<open>generate_version_py\<close> writes the module to
  \<^verbatim>\<open>os.path.join(srcdir, *packagename.split('.'), 'version.py')\<close>, but
  \<^verbatim>\<open>get_pkg_version_module\<close> reads it from \<^verbatim>\<open>os.path.join(packagename, 'version.py')\<close>.
  With \<^verbatim>\<open>srcdir='src'\<close> the module written by the first invocation is not the file the
  second one looks for: the example build, run twice with that argument, writes
  \<^verbatim>\<open>src/pkg/version.py\<close> both times.
\<close>

theorem srcdir_second_run_writes_again:
  "fst (generate_version_py ex_env (ex_args\<lparr>arg_srcdir := ''src''\<rparr>) ex_world) = Inr ''1.0''
   \<and> map fst (write_log (snd (generate_version_py ex_env (ex_args\<lparr>arg_srcdir := ''src''\<rparr>)
                                 ex_world))) = [''src/pkg/version.py'']
   \<and> fst (generate_version_py ex_env (ex_args\<lparr>arg_srcdir := ''src''\<rparr>)
           (snd (generate_version_py ex_env (ex_args\<lparr>arg_srcdir := ''src''\<rparr>) ex_world)))
       = Inr ''1.0''
   \<and> map fst (write_log (snd (generate_version_py ex_env (ex_args\<lparr>arg_srcdir := ''src''\<rparr>)
           (snd (generate_version_py ex_env (ex_args\<lparr>arg_srcdir := ''src''\<rparr>) ex_world)))))
       = [''src/pkg/version.py'', ''src/pkg/version.py'']"
  by code_simp


theorem srcdir_second_run_writes_again_witness:
  "length (write_log (snd (generate_version_py ex_env (ex_args\<lparr>arg_srcdir := ''src''\<rparr>)
           (snd (generate_version_py ex_env (ex_args\<lparr>arg_srcdir := ''src''\<rparr>) ex_world)))))
     = 2
   \<and> length (write_log (snd (generate_version_py ex_env (ex_args\<lparr>arg_srcdir := ''src''\<rparr>)
                                ex_world))) = 1"
proof -
  let ?w1 = "snd (generate_version_py ex_env (ex_args\<lparr>arg_srcdir := ''src''\<rparr>) ex_world)"
  let ?w2 = "snd (generate_version_py ex_env (ex_args\<lparr>arg_srcdir := ''src''\<rparr>) ?w1)"
  have "length (map fst (write_log ?w2)) = 2" and "length (map fst (write_log ?w1)) = 1"
    using srcdir_second_run_writes_again by simp_all
  then show ?thesis by simp
qed

text \<open>
  Where the file written is the file read, and executing the written text gives a
  module that records the version, the release flag and the debug flag it was rendered
  from, a second invocation changes nothing. The example build with \<^verbatim>\<open>srcdir='.'\<close> is
  such a case; with \<^verbatim>\<open>srcdir='src'\<close>, or with a dotted package name, the first
  hypothesis fails.
\<close>

lemma gvp_locals_world_independent:
  assumes "gvp_locals e a w p0 v0 g = Inr l" and "gvp_locals e a w2 p0 v0 g = Inr l2"
  shows "l_version l2 = l_version l \<and> l_release l2 = l_release l
         \<and> l_packagename l2 = l_packagename l \<and> l_version_py l2 = l_version_py l
         \<and> l_uses_git l2 = l_uses_git l
         \<and> l_debug l2 = (case arg_debug a of None \<Rightarrow> truthy (l_current_debug l2) | Some d \<Rightarrow> d)
         \<and> l_debug l = (case arg_debug a of None \<Rightarrow> truthy (l_current_debug l) | Some d \<Rightarrow> d)"
  using assms
  by (auto simp: gvp_locals_def Let_def split: sum.splits prod.splits option.splits)

lemma gvp_locals_of_prior:
  assumes "load_prior e w (replace_char CHR ''-'' CHR ''_'' p0) = Inr pr"
  shows "\<exists>l. gvp_locals e a w p0 v0 g = Inr l"
  using assms by (cases pr) (simp add: gvp_locals_def Let_def)

lemma second_run_writes_nothing:
  assumes cfg: "read_config e a = Inr (p0, v0, g)"
    and loc: "gvp_locals e a w p0 v0 g = Inr l"
    and run: "generate_version_py e a w = (Inr v, w1)"
    and same_file: "resolve (l_version_py l) = resolve (path_join (l_packagename l) [''version.py''])"
    and readback: "\<And>text. files w1 (resolve (l_version_py l)) = Some text \<Longrightarrow>
        \<exists>m. exec_module e text = Inr m
          \<and> (case vm_last_generated_version m of Some x \<Rightarrow> Some x | None \<Rightarrow> vm_version m)
               = Some (l_version l)
          \<and> (case vm_last_githash m of Some h \<Rightarrow> Some h | None \<Rightarrow> vm_githash m) \<noteq> None
          \<and> vm_release m = Some (l_release l) \<and> vm_debug m = Some (l_debug l)"
  shows "generate_version_py e a w1 = (Inr v, w1)"
proof (cases "l_last_generated_version l \<noteq> Some (l_version l)
            \<or> l_current_release l \<noteq> Some (l_release l)
            \<or> l_current_debug l \<noteq> Some (l_debug l)")
  case False
  then have "generate_version_py e a w = (Inr (l_version l), w)"
    using cfg loc by (simp add: generate_version_py_def)
  then show ?thesis using run by simp
next
  case True
  then have "write_version_py e w l = (Inr v, w1)"
    using cfg loc run by (simp add: generate_version_py_def)
  then obtain t where v: "v = l_version l"
    and w1: "w1 = w\<lparr>files := (files w)(resolve (l_version_py l) \<mapsto> t),
                    write_log := write_log w @ [(l_version_py l, t)]\<rparr>"
    using write_version_py_Inr by blast
  have pn: "l_packagename l = replace_char CHR ''-'' CHR ''_'' p0"
    using loc by (auto simp: gvp_locals_def Let_def split: sum.splits prod.splits)
  have stored: "files w1 (resolve (l_version_py l)) = Some t" using w1 by simp
  then obtain m where m: "exec_module e t = Inr m"
    and mv: "(case vm_last_generated_version m of Some x \<Rightarrow> Some x | None \<Rightarrow> vm_version m)
               = Some (l_version l)"
    and mh: "(case vm_last_githash m of Some h \<Rightarrow> Some h | None \<Rightarrow> vm_githash m) \<noteq> None"
    and mr: "vm_release m = Some (l_release l)" and md: "vm_debug m = Some (l_debug l)"
    using readback by blast
  obtain h where mh': "(case vm_last_githash m of Some h \<Rightarrow> Some h | None \<Rightarrow> vm_githash m) = Some h"
    using mh by auto
  have imp: "get_pkg_version_module e w1 (replace_char CHR ''-'' CHR ''_'' p0) = Inr m"
    using stored m same_file pn by (simp add: get_pkg_version_module_def import_file_def)
  have prior: "load_prior e w1 (replace_char CHR ''-'' CHR ''_'' p0)
      = Inr (Some m, Some (l_version l), Some h, Some (l_release l), Some (l_debug l))"
    using imp mv mh' mr md by (simp add: load_prior_def)
  obtain l2 where loc2: "gvp_locals e a w1 p0 v0 g = Inr l2"
    using gvp_locals_of_prior[OF prior] by blast
  have p2: "l_last_generated_version l2 = Some (l_version l)
            \<and> l_current_release l2 = Some (l_release l)
            \<and> l_current_debug l2 = Some (l_debug l)"
    using gvp_locals_prior[OF loc2] prior by simp
  have ind: "l_version l2 = l_version l \<and> l_release l2 = l_release l
         \<and> l_debug l2 = (case arg_debug a of None \<Rightarrow> truthy (l_current_debug l2) | Some d \<Rightarrow> d)
         \<and> l_debug l = (case arg_debug a of None \<Rightarrow> truthy (l_current_debug l) | Some d \<Rightarrow> d)"
    using gvp_locals_world_independent[OF loc loc2] by simp
  have d2: "l_debug l2 = l_debug l"
    using ind p2 by (auto simp: truthy_def split: option.splits)
  have v2: "l_version l2 = l_version l" and r2: "l_release l2 = l_release l"
    using ind by simp_all
  have same: "\<not> (l_last_generated_version l2 \<noteq> Some (l_version l2)
            \<or> l_current_release l2 \<noteq> Some (l_release l2)
            \<or> l_current_debug l2 \<noteq> Some (l_debug l2))"
    using p2 unfolding v2 r2 d2 by simp
  have "generate_version_py e a w1 = (Inr (l_version l2), w1)"
    using cfg loc2 same by (simp add: generate_version_py_def)
  then show ?thesis using v v2 by simp
qed


subsection \<open>Numbers from digits\<close>

lemma digit_not_space: "is_digit c \<Longrightarrow> \<not> is_int_space c"
  by (auto simp: is_digit_def is_int_space_def)

lemma strip_decimal: "decimal s \<Longrightarrow> strip s = s"
proof -
  assume d: "decimal s"
  then obtain c cs where s: "s = c # cs" by (cases s) (auto simp: decimal_def)
  have all: "list_all is_digit s" using d by (simp add: decimal_def)
  have h: "\<not> is_int_space (hd s)" using s all digit_not_space by auto
  have l: "\<not> is_int_space (last s)"
  proof -
    have "last s \<in> set s" using s by simp
    then have "is_digit (last s)" using all by (simp add: list_all_iff)
    then show ?thesis by (rule digit_not_space)
  qed
  have 1: "dropWhile is_int_space s = s" using s h by simp
  have "rev (butlast s @ [last s]) = last s # rev (butlast s)" by simp
  moreover have "butlast s @ [last s] = s" using s by simp
  ultimately have r: "rev s = last s # rev (butlast s)" by simp
  have 2: "dropWhile is_int_space (rev s) = rev s" using l by (subst (1 2) r) simp
  show ?thesis by (simp add: strip_def 1 2)
qed

lemma split_on_absent: "c \<notin> set s \<Longrightarrow> split_on c s = [s]"
  by (induction s) auto

lemma digit_not_underscore: "list_all is_digit s \<Longrightarrow> CHR ''_'' \<notin> set s"
  by (auto simp: list_all_iff is_digit_def)

lemma py_int_decimal: "decimal s \<Longrightarrow> py_int s = Inr (int (digits_val s))"
proof -
  assume d: "decimal s"
  then obtain c cs where s: "s = c # cs" and c: "is_digit c" and all: "list_all is_digit s"
    by (cases s) (auto simp: decimal_def)
  have nu: "CHR ''_'' \<notin> set s" using all by (rule digit_not_underscore)
  have ok: "int_body_ok s" using d nu by (simp add: int_body_ok_def split_on_absent decimal_def)
  have f: "filter (\<lambda>c. c \<noteq> CHR ''_'') s = s" using nu by (auto simp: filter_id_conv)
  have nm: "c \<noteq> CHR ''-''" "c \<noteq> CHR ''+''" using c by (auto simp: is_digit_def)
  show ?thesis using strip_decimal[OF d] ok f nm s
    by (simp add: py_int_def startswith_def int_body_val_def)
qed

lemma int_parts_decimal:
  "list_all decimal ps \<Longrightarrow> int_parts ps = Inr (map (\<lambda>p. int (digits_val p)) ps)"
  by (induction ps) (simp_all add: py_int_decimal)

lemma legacy_parts_decimal:
  "list_all decimal (takeWhile (\<lambda>q. \<not> startswith q ''*'') ps) \<Longrightarrow>
   legacy_parts ps = Inr (map (\<lambda>p. int (digits_val p)) (takeWhile (\<lambda>q. \<not> startswith q ''*'') ps))"
  by (induction ps) (auto simp: py_int_decimal split: if_splits)

lemma pad_replicate: "n < 3 \<Longrightarrow> replicate (3 - n) (0::int) = take (3 - n) [0, 0, 0]"
proof -
  assume "n < 3"
  then consider "n = 0" | "n = 1" | "n = 2" by linarith
  then show ?thesis by cases (simp_all add: numeral_3_eq_3 numeral_2_eq_2)
qed

lemma version_split_numeric:
  assumes "list_all decimal (numeric_components (parse version))"
  shows "version_split parse version =
     Inr (take 3 (map (\<lambda>p. int (digits_val p)) (numeric_components (parse version)) @ [0, 0, 0]))"
proof (cases "parse version")
  case (BaseVersion bv)
  show ?thesis
  proof (cases "bv = []")
    case True
    then show ?thesis using BaseVersion by (simp add: version_split_def numeric_components_def numeral_3_eq_3)
  next
    case False
    then have "int_parts (split_on CHR ''.'' bv) = Inr (map (\<lambda>p. int (digits_val p)) (split_on CHR ''.'' bv))"
      using assms BaseVersion by (simp add: numeric_components_def int_parts_decimal)
    then show ?thesis using BaseVersion False
      by (simp add: version_split_def numeric_components_def pad_replicate)
  qed
next
  case (Parts ps)
  then have "legacy_parts ps = Inr (map (\<lambda>p. int (digits_val p)) (takeWhile (\<lambda>q. \<not> startswith q ''*'') ps))"
    using assms by (simp add: numeric_components_def legacy_parts_decimal)
  then show ?thesis using Parts
    by (simp add: version_split_def numeric_components_def pad_replicate)
qed



lemma digit_char:
  assumes "k < 10"
  shows "is_digit (''0123456789'' ! k) \<and> digit_val (''0123456789'' ! k) = k"
proof -
  have "k = 0 \<or> k = 1 \<or> k = 2 \<or> k = 3 \<or> k = 4 \<or> k = 5 \<or> k = 6 \<or> k = 7
        \<or> k = 8 \<or> k = 9"
    using assms by presburger
  then show ?thesis by (elim disjE) (simp_all add: is_digit_def digit_val_def)
qed

lemma digits_val_snoc: "digits_val (s @ [c]) = 10 * digits_val s + digit_val c"
  by (simp add: digits_val_def)

lemma show_nat_decimal: "decimal (show_nat n)"
proof (induction n rule: show_nat.induct)
  case (1 n)
  show ?case
  proof (cases "n < 10")
    case True
    then show ?thesis using digit_char[of n] by (subst show_nat.simps) (simp add: decimal_def)
  next
    case False
    have "n mod 10 < 10" by simp
    then have "is_digit (''0123456789'' ! (n mod 10))" using digit_char by blast
    then show ?thesis using False 1[OF False] by (subst show_nat.simps) (simp add: decimal_def)
  qed
qed

lemma digits_val_show_nat: "digits_val (show_nat n) = n"
proof (induction n rule: show_nat.induct)
  case (1 n)
  show ?case
  proof (cases "n < 10")
    case True
    then show ?thesis using digit_char[of n] by (subst show_nat.simps) (simp add: digits_val_def)
  next
    case False
    have "n mod 10 < 10" by simp
    then have d: "digit_val (''0123456789'' ! (n mod 10)) = n mod 10" using digit_char by blast
    have "digits_val (show_nat n)
            = digits_val (show_nat (n div 10) @ [''0123456789'' ! (n mod 10)])"
      using False by (subst show_nat.simps) simp
    also have "\<dots> = 10 * (n div 10) + n mod 10"
      using 1[OF False] d by (simp only: digits_val_snoc)
    finally show ?thesis by simp
  qed
qed

text \<open>
  Every string that matches the version pattern of PEP 440 and has no epoch has decimal
  components only: \<^verbatim>\<open>_version_split\<close> gives its first three release numbers.
\<close>

lemma split_on_join:
  assumes "ps \<noteq> []" and "list_all (\<lambda>p. c \<notin> set p) ps"
  shows "split_on c (join_with [c] ps) = ps"
  using assms
proof (induction "[c]" ps rule: join_with.induct)
  case 1
  then show ?case by simp
next
  case (2 x)
  then show ?case by (simp add: split_on_absent)
next
  case (3 x y ys)
  have "split_on c (x @ c # rest) = x # split_on c rest" if "c \<notin> set x" for rest
    using that by (induction x) auto
  then show ?case using 3 by simp
qed

lemma decimal_no_dot:
  assumes "decimal p"
  shows "CHR ''.'' \<notin> set p"
proof
  assume "CHR ''.'' \<in> set p"
  then have "is_digit CHR ''.''" using assms by (simp add: decimal_def list_all_iff)
  then show False by (simp add: is_digit_def)
qed

lemma release_of_nonempty: "release_of s = Some (rel, rest) \<Longrightarrow> rel \<noteq> []"
  by (auto simp: release_of_def Let_def split: if_splits)

lemma pep440_release_nonempty: "pep440 version = Some (ep, rel) \<Longrightarrow> rel \<noteq> []"
  by (auto simp: pep440_def Let_def split: option.splits if_splits dest: release_of_nonempty)

lemma pep440_components:
  assumes "pep440 version = Some (0, rel)"
  shows "numeric_components (parse_version version) = map show_nat rel"
proof -
  have ne: "rel \<noteq> []" using assms by (rule pep440_release_nonempty)
  have nodot: "list_all (\<lambda>p. CHR ''.'' \<notin> set p) (map show_nat rel)"
    by (simp add: list_all_iff decimal_no_dot show_nat_decimal)
  have bv: "parse_version version = BaseVersion (join_with ''.'' (map show_nat rel))"
    using assms by (simp add: parse_version_def)
  have nonempty: "join_with ''.'' (map show_nat rel) \<noteq> []"
  proof
    assume "join_with ''.'' (map show_nat rel) = []"
    then have "split_on CHR ''.'' (join_with ''.'' (map show_nat rel)) = [[]]" by simp
    then have "map show_nat rel = [[]]" using split_on_join[of "map show_nat rel" "CHR ''.''"] ne nodot by simp
    then have "[] \<in> set (map show_nat rel)" by simp
    then obtain n where "show_nat n = []" by (auto dest: sym)
    then show False using show_nat_decimal[of n] by (simp add: decimal_def)
  qed
  show ?thesis
    using bv nonempty split_on_join[of "map show_nat rel" "CHR ''.''"] ne nodot
    by (simp add: numeric_components_def)
qed

lemma version_split_pep440:
  assumes "pep440 version = Some (0, rel)"
  shows "version_split parse_version version = Inr (take 3 (map int rel @ [0, 0, 0]))"
proof -
  have c: "numeric_components (parse_version version) = map show_nat rel"
    using assms by (rule pep440_components)
  have d: "list_all decimal (numeric_components (parse_version version))"
    unfolding c by (simp add: list_all_iff show_nat_decimal)
  have m: "map (\<lambda>p. int (digits_val p)) (map show_nat rel) = map int rel"
    by (induction rel) (simp_all add: digits_val_show_nat)
  have "version_split parse_version version
          = Inr (take 3 (map (\<lambda>p. int (digits_val p)) (map show_nat rel) @ [0, 0, 0]))"
    using version_split_numeric[of parse_version version, OF d] by (simp only: c)
  then show ?thesis by (simp only: m)
qed


subsection \<open>Which strings the version splitter accepts\<close>





subsection \<open>The effective version\<close>

lemma gvp_locals_release:
  assumes "gvp_locals e a w p0 v0 g = Inr l"
  shows "l_release l = (case arg_release a of None \<Rightarrow> \<not> contains v0 ''dev'' | Some r \<Rightarrow> r)"
  using assms
  by (auto simp: gvp_locals_def Let_def truthy_def split: sum.splits prod.splits option.splits)

lemma gvp_locals_version:
  assumes "gvp_locals e a w p0 v0 g = Inr l"
  shows "l_version l = (if \<not> l_release l \<and> g then v0 @ git_devstr e else v0)"
  using assms
  by (auto simp: gvp_locals_def Let_def truthy_def split: sum.splits prod.splits option.splits)

lemma generate_version_py_returns:
  assumes cfg: "read_config e a = Inr (p0, v0, g)"
    and run: "generate_version_py e a w = (Inr v, w')"
  shows "\<exists>l. gvp_locals e a w p0 v0 g = Inr l \<and> v = l_version l"
proof (cases "gvp_locals e a w p0 v0 g")
  case (Inl err)
  then show ?thesis using cfg run by (simp add: generate_version_py_def)
next
  case (Inr l)
  have "v = l_version l"
  proof (cases "l_last_generated_version l \<noteq> Some (l_version l)
            \<or> l_current_release l \<noteq> Some (l_release l)
            \<or> l_current_debug l \<noteq> Some (l_debug l)")
    case True
    then have "write_version_py e w l = (Inr v, w')"
      using cfg Inr run by (simp add: generate_version_py_def)
    then show ?thesis using write_version_py_Inr by blast
  next
    case False
    then show ?thesis using cfg Inr run by (simp add: generate_version_py_def)
  qed
  then show ?thesis using Inr by simp
qed

lemma read_config_version:
  assumes "read_config e a = Inr (p0, v0, g)"
  shows "g = (setup_cfg e ''metadata'' ''version'' \<noteq> None)
         \<and> (case setup_cfg e ''metadata'' ''version'' of
               Some cv \<Rightarrow> v0 = cv | None \<Rightarrow> arg_version a = Some v0)"
  using assms by (auto simp: read_config_def split: option.splits)

text \<open>
  The claim C5 as it is written fails: when \<^verbatim>\<open>setup.cfg\<close> gives no version and the
  version comes from the \<^verbatim>\<open>version\<close> argument, \<^verbatim>\<open>add_git_devstr\<close> is \<^verbatim>\<open>False\<close> and no
  suffix is appended, also for a build that is not a release. Here the version is
  \<^verbatim>\<open>'1.0.dev'\<close>, the release flag is \<^verbatim>\<open>False\<close>, git gives the suffix \<^verbatim>\<open>'42'\<close>, and
  \<^verbatim>\<open>'1.0.dev'\<close> is returned.
\<close>

theorem dev_suffix_only_from_setup_cfg_counterexample:
  "read_config (ex_env\<lparr>setup_cfg := ex_name_cfg\<rparr>) (ex_args\<lparr>arg_version := Some ''1.0.dev''\<rparr>)
     = Inr (''pkg'', ''1.0.dev'', False)
   \<and> map_sum id l_release
       (gvp_locals (ex_env\<lparr>setup_cfg := ex_name_cfg\<rparr>) (ex_args\<lparr>arg_version := Some ''1.0.dev''\<rparr>)
          ex_world ''pkg'' ''1.0.dev'' False) = Inr False
   \<and> git_devstr (ex_env\<lparr>setup_cfg := ex_name_cfg\<rparr>) = ''42''
   \<and> fst (generate_version_py (ex_env\<lparr>setup_cfg := ex_name_cfg\<rparr>)
            (ex_args\<lparr>arg_version := Some ''1.0.dev''\<rparr>) ex_world) = Inr ''1.0.dev''"
  by code_simp

text \<open>
  C5, amended. When the build is not a release and the version was read from
  \<^verbatim>\<open>setup.cfg\<close>, the returned version is the configured version followed by the
  development suffix that git gives. When the build is a release, or that suffix is
  empty (git gave none), or the version came from the \<^verbatim>\<open>version\<close> argument, the
  returned version is the configured version as it is.
\<close>

theorem effective_version:
  assumes cfg: "read_config e a = Inr (p0, v0, g)"
    and loc: "gvp_locals e a w p0 v0 g = Inr l"
    and run: "generate_version_py e a w = (Inr v, w')"
  shows "(\<not> l_release l \<and> setup_cfg e ''metadata'' ''version'' \<noteq> None
            \<longrightarrow> v = v0 @ git_devstr e)
       \<and> (l_release l \<or> git_devstr e = [] \<or> setup_cfg e ''metadata'' ''version'' = None
            \<longrightarrow> v = v0)"
proof -
  obtain l' where "gvp_locals e a w p0 v0 g = Inr l'" and "v = l_version l'"
    using generate_version_py_returns[OF cfg run] by blast
  then have v: "v = l_version l" using loc by simp
  have g: "g = (setup_cfg e ''metadata'' ''version'' \<noteq> None)"
    using read_config_version[OF cfg] by simp
  show ?thesis using v g gvp_locals_version[OF loc] by auto
qed

lemma ex_dev_read_config:
  "read_config (ex_env\<lparr>setup_cfg := ex_dev_cfg\<rparr>) ex_args = Inr (''pkg'', ''1.0.dev'', True)"
  by code_simp

lemma ex_dev_run:
  "fst (generate_version_py (ex_env\<lparr>setup_cfg := ex_dev_cfg\<rparr>) ex_args ex_world) = Inr ''1.0.dev42''"
  by code_simp

lemma ex_dev_release:
  "map_sum id l_release
     (gvp_locals (ex_env\<lparr>setup_cfg := ex_dev_cfg\<rparr>) ex_args ex_world ''pkg'' ''1.0.dev'' True)
   = Inr False"
  by code_simp

theorem effective_version_witness:
  "\<exists>l w'. read_config (ex_env\<lparr>setup_cfg := ex_dev_cfg\<rparr>) ex_args = Inr (''pkg'', ''1.0.dev'', True)
     \<and> gvp_locals (ex_env\<lparr>setup_cfg := ex_dev_cfg\<rparr>) ex_args ex_world ''pkg'' ''1.0.dev'' True = Inr l
     \<and> generate_version_py (ex_env\<lparr>setup_cfg := ex_dev_cfg\<rparr>) ex_args ex_world = (Inr ''1.0.dev42'', w')
     \<and> \<not> l_release l
     \<and> setup_cfg (ex_env\<lparr>setup_cfg := ex_dev_cfg\<rparr>) ''metadata'' ''version'' \<noteq> None
     \<and> ''1.0.dev42'' = ''1.0.dev'' @ git_devstr (ex_env\<lparr>setup_cfg := ex_dev_cfg\<rparr>)"
proof -
  let ?e = "ex_env\<lparr>setup_cfg := ex_dev_cfg\<rparr>"
  obtain w' where run: "generate_version_py ?e ex_args ex_world = (Inr ''1.0.dev42'', w')"
    using ex_dev_run by (cases "generate_version_py ?e ex_args ex_world") simp
  obtain l where loc: "gvp_locals ?e ex_args ex_world ''pkg'' ''1.0.dev'' True = Inr l"
    and rel: "\<not> l_release l"
    using ex_dev_release
    by (cases "gvp_locals ?e ex_args ex_world ''pkg'' ''1.0.dev'' True") auto
  have ver: "setup_cfg ?e ''metadata'' ''version'' \<noteq> None" by (simp add: ex_dev_cfg_def)
  have "''1.0.dev42'' = ''1.0.dev'' @ git_devstr ?e"
    using effective_version[OF ex_dev_read_config loc run] rel ver by blast
  then show ?thesis using ex_dev_read_config loc run rel ver by blast
qed


text \<open>
  C9. Every invocation that returns gives the effective version: the configured
  version, followed by the development suffix when the build is not a release and the
  version was read from \<^verbatim>\<open>setup.cfg\<close>. That value does not depend on the files, so it is
  the same whether or not \<^verbatim>\<open>version.py\<close> was written.
\<close>

theorem returns_effective_version:
  assumes cfg: "read_config e a = Inr (p0, v0, g)"
    and run1: "generate_version_py e a w1 = (Inr v1, w1')"
    and run2: "generate_version_py e a w2 = (Inr v2, w2')"
  shows "v1 = (if (case arg_release a of None \<Rightarrow> contains v0 ''dev'' | Some r \<Rightarrow> \<not> r) \<and> g
               then v0 @ git_devstr e else v0)
         \<and> v2 = v1"
proof -
  have eff: "v = (if (case arg_release a of None \<Rightarrow> contains v0 ''dev'' | Some r \<Rightarrow> \<not> r) \<and> g
               then v0 @ git_devstr e else v0)"
    if run: "generate_version_py e a w = (Inr v, w')" for v w w'
  proof -
    obtain l where loc: "gvp_locals e a w p0 v0 g = Inr l" and v: "v = l_version l"
      using generate_version_py_returns[OF cfg run] by blast
    show ?thesis
      using v gvp_locals_version[OF loc] gvp_locals_release[OF loc]
      by (auto split: option.splits)
  qed
  show ?thesis using eff[OF run1] eff[OF run2] by simp
qed

lemma ex_second_run:
  "fst (generate_version_py ex_env ex_args (snd (generate_version_py ex_env ex_args ex_world)))
     = Inr ''1.0''
   \<and> length (write_log (snd (generate_version_py ex_env ex_args ex_world))) = 1
   \<and> length (write_log (snd (generate_version_py ex_env ex_args
               (snd (generate_version_py ex_env ex_args ex_world))))) = 1"
  by code_simp

theorem returns_effective_version_witness:
  "\<exists>w1 w2. generate_version_py ex_env ex_args ex_world = (Inr ''1.0'', w1)
      \<and> generate_version_py ex_env ex_args w1 = (Inr ''1.0'', w2)
      \<and> length (write_log w1) = 1 \<and> length (write_log w2) = 1
      \<and> ''1.0'' = (if (case arg_release ex_args of None \<Rightarrow> contains ''1.0'' ''dev''
                                                  | Some r \<Rightarrow> \<not> r) \<and> True
                    then ''1.0'' @ git_devstr ex_env else ''1.0'')"
proof -
  obtain w1 where run1: "generate_version_py ex_env ex_args ex_world = (Inr ''1.0'', w1)"
    using ex_run by (cases "generate_version_py ex_env ex_args ex_world") simp
  obtain w2 where run2: "generate_version_py ex_env ex_args w1 = (Inr ''1.0'', w2)"
    using ex_second_run run1 by (cases "generate_version_py ex_env ex_args w1") simp
  have len: "length (write_log w1) = 1 \<and> length (write_log w2) = 1"
    using ex_second_run run1 run2 by simp
  show ?thesis
    using returns_effective_version[OF ex_read_config run1 run2] run1 run2 len by blast
qed


text \<open>
  C10. When the \<^verbatim>\<open>release\<close> argument is \<^verbatim>\<open>None\<close>, the release flag is \<^verbatim>\<open>True\<close> exactly
  when \<^verbatim>\<open>dev\<close> does not occur in the configured version string; it is the same in every
  world, whatever release flag a previously generated module records.
\<close>

theorem release_from_version_string:
  assumes cfg: "read_config e a = Inr (p0, v0, g)"
    and none: "arg_release a = None"
    and loc: "gvp_locals e a w p0 v0 g = Inr l"
    and loc2: "gvp_locals e a w2 p0 v0 g = Inr l2"
  shows "l_release l = (\<not> contains v0 ''dev'') \<and> l_release l2 = l_release l"
  using gvp_locals_release[OF loc] gvp_locals_release[OF loc2] none by simp

lemma ex_dev_locals:
  "map_sum id (\<lambda>l. (l_release l, l_current_release l))
     (gvp_locals (ex_env\<lparr>setup_cfg := ex_dev_cfg\<rparr>) ex_args ex_world ''pkg'' ''1.0.dev'' True)
     = Inr (False, None)
   \<and> map_sum id (\<lambda>l. (l_release l, l_current_release l))
     (gvp_locals (ex_env\<lparr>setup_cfg := ex_dev_cfg\<rparr>) ex_args
        (snd (generate_version_py ex_env ex_args ex_world)) ''pkg'' ''1.0.dev'' True)
     = Inr (False, Some True)"
  by code_simp

theorem release_from_version_string_witness:
  "\<exists>l l2. arg_release ex_args = None
     \<and> gvp_locals (ex_env\<lparr>setup_cfg := ex_dev_cfg\<rparr>) ex_args ex_world ''pkg'' ''1.0.dev'' True
         = Inr l
     \<and> gvp_locals (ex_env\<lparr>setup_cfg := ex_dev_cfg\<rparr>) ex_args
         (snd (generate_version_py ex_env ex_args ex_world)) ''pkg'' ''1.0.dev'' True = Inr l2
     \<and> l_current_release l2 = Some True
     \<and> l_release l = (\<not> contains ''1.0.dev'' ''dev'') \<and> l_release l2 = l_release l"
proof -
  let ?e = "ex_env\<lparr>setup_cfg := ex_dev_cfg\<rparr>"
  let ?w = "snd (generate_version_py ex_env ex_args ex_world)"
  have none: "arg_release ex_args = None" by (simp add: ex_args_def)
  obtain l where loc: "gvp_locals ?e ex_args ex_world ''pkg'' ''1.0.dev'' True = Inr l"
    using ex_dev_locals by (cases "gvp_locals ?e ex_args ex_world ''pkg'' ''1.0.dev'' True") auto
  obtain l2 where loc2: "gvp_locals ?e ex_args ?w ''pkg'' ''1.0.dev'' True = Inr l2"
    and cur: "l_current_release l2 = Some True"
    using ex_dev_locals by (cases "gvp_locals ?e ex_args ?w ''pkg'' ''1.0.dev'' True") auto
  show ?thesis
    using release_from_version_string[OF ex_dev_read_config none loc loc2] none loc loc2 cur
    by blast
qed


subsection \<open>Missing configuration\<close>

text \<open>
  The claim C6 as it is written fails when \<^verbatim>\<open>setup.cfg\<close> gives no version but the
  \<^verbatim>\<open>version\<close> argument does: the argument is used, the function returns and
  \<^verbatim>\<open>version.py\<close> is written.
\<close>

theorem version_argument_not_fatal_counterexample:
  "setup_cfg (ex_env\<lparr>setup_cfg := ex_name_cfg\<rparr>) ''metadata'' ''version'' = None
   \<and> fst (generate_version_py (ex_env\<lparr>setup_cfg := ex_name_cfg\<rparr>)
            (ex_args\<lparr>arg_version := Some ''1.0.dev''\<rparr>) ex_world) = Inr ''1.0.dev''
   \<and> map fst (write_log (snd (generate_version_py (ex_env\<lparr>setup_cfg := ex_name_cfg\<rparr>)
            (ex_args\<lparr>arg_version := Some ''1.0.dev''\<rparr>) ex_world))) = [''./pkg/version.py'']"
  by code_simp

text \<open>
  C6, amended. When neither \<^verbatim>\<open>setup.cfg\<close> (options \<^verbatim>\<open>name\<close> and \<^verbatim>\<open>package_name\<close>) nor the
  \<^verbatim>\<open>packagename\<close> argument gives a package name, or neither \<^verbatim>\<open>setup.cfg\<close> nor the
  \<^verbatim>\<open>version\<close> argument gives a version, \<^verbatim>\<open>generate_version_py\<close> prints an error line to
  \<^verbatim>\<open>sys.stderr\<close> and raises \<^verbatim>\<open>SystemExit(1)\<close>; no file is touched and nothing is
  written.
\<close>

theorem missing_configuration_fatal:
  assumes "(setup_cfg e ''metadata'' ''name'' = None
            \<and> setup_cfg e ''metadata'' ''package_name'' = None \<and> arg_packagename a = None)
         \<or> (setup_cfg e ''metadata'' ''version'' = None \<and> arg_version a = None)"
  shows "\<exists>msg. msg \<in> {''ERROR: Could not read package name from setup.cfg'',
                      ''ERROR: Could not read package version from setup.cfg''}
           \<and> generate_version_py e a w = (Inl (SystemExit 1), w\<lparr>stderr := stderr w @ [msg]\<rparr>)"
proof -
  have "read_config e a = Inl ''ERROR: Could not read package name from setup.cfg''
      \<or> read_config e a = Inl ''ERROR: Could not read package version from setup.cfg''"
    using assms by (auto simp: read_config_def split: option.splits)
  then show ?thesis by (auto simp: generate_version_py_def)
qed

theorem missing_configuration_fatal_witness:
  "setup_cfg (ex_env\<lparr>setup_cfg := ex_name_cfg\<rparr>) ''metadata'' ''version'' = None
   \<and> arg_version ex_args = None
   \<and> fst (generate_version_py (ex_env\<lparr>setup_cfg := ex_name_cfg\<rparr>) ex_args ex_world)
       = Inl (SystemExit 1)
   \<and> files (snd (generate_version_py (ex_env\<lparr>setup_cfg := ex_name_cfg\<rparr>) ex_args ex_world))
       = files ex_world
   \<and> write_log (snd (generate_version_py (ex_env\<lparr>setup_cfg := ex_name_cfg\<rparr>) ex_args ex_world))
       = []
   \<and> stderr (snd (generate_version_py (ex_env\<lparr>setup_cfg := ex_name_cfg\<rparr>) ex_args ex_world))
       \<noteq> []"
proof -
  have h: "setup_cfg (ex_env\<lparr>setup_cfg := ex_name_cfg\<rparr>) ''metadata'' ''version'' = None
           \<and> arg_version ex_args = None"
    by (simp add: ex_name_cfg_def ex_args_def)
  then show ?thesis
    using missing_configuration_fatal[of "ex_env\<lparr>setup_cfg := ex_name_cfg\<rparr>" ex_args ex_world]
    by (auto simp: ex_world_def)
qed


subsection \<open>No previously generated module\<close>

text \<open>
  The claim C7 as it is written fails for a module that is there but unreadable: only
  \<^verbatim>\<open>ImportError\<close> is caught. A \<^verbatim>\<open>pkg/version.py\<close> that is not Python raises
  \<^verbatim>\<open>SyntaxError\<close> when it is executed, and an empty one gives a module without
  attributes, on which \<^verbatim>\<open>version_module.version\<close> raises \<^verbatim>\<open>AttributeError\<close>; both leave
  the function, and nothing is written.
\<close>

theorem unreadable_module_is_fatal_counterexample:
  "files ex_world_garbage [''pkg'', ''version.py''] = Some ''<<<<<<< HEAD''
   \<and> exec_module ex_env ''<<<<<<< HEAD'' = Inl SyntaxError
   \<and> fst (generate_version_py ex_env ex_args ex_world_garbage) = Inl SyntaxError
   \<and> write_log (snd (generate_version_py ex_env ex_args ex_world_garbage)) = []
   \<and> files (snd (generate_version_py ex_env ex_args ex_world_garbage))
       [''pkg'', ''version.py''] = Some ''<<<<<<< HEAD''
   \<and> fst (generate_version_py ex_env ex_args ex_world_empty) = Inl AttributeError
   \<and> write_log (snd (generate_version_py ex_env ex_args ex_world_empty)) = []"
  by code_simp

text \<open>
  C7, amended. When the previously generated module is missing, this is not fatal: it
  is the absence of a prior record (\<^verbatim>\<open>version_module\<close>, \<^verbatim>\<open>last_generated_version\<close>,
  \<^verbatim>\<open>last_githash\<close>, \<^verbatim>\<open>current_release\<close> and \<^verbatim>\<open>current_debug\<close> are all \<^verbatim>\<open>None\<close>), and
  regeneration proceeds: \<^verbatim>\<open>version.py\<close> is opened and the text rendered from the computed
  version, no git hash, the release flag and the debug flag (\<^verbatim>\<open>False\<close> unless given) is
  written to it.
\<close>

theorem missing_module_is_no_prior_record:
  assumes cfg: "read_config e a = Inr (p0, v0, g)"
    and gone: "files w (resolve (prior_path p0)) = None"
  shows "load_prior e w (module_of p0) = Inr (None, None, None, None, None)
     \<and> generate_version_py e a w =
     (let release = (case arg_release a of None \<Rightarrow> \<not> contains v0 ''dev'' | Some r \<Rightarrow> r);
          version = (if \<not> release \<and> g then v0 @ git_devstr e else v0);
          debug = (case arg_debug a of Some d \<Rightarrow> d | None \<Rightarrow> False);
          uses_git = (case arg_uses_git a of None \<Rightarrow> \<not> release | Some u \<Rightarrow> u);
          version_py = version_py_path a p0
      in if \<not> writable e version_py then (Inl OSError, w)
         else (case get_version_py_str e (module_of p0) version None release debug uses_git of
                 Inl err \<Rightarrow> (Inl err, w\<lparr>files := (files w)(resolve version_py \<mapsto> [])\<rparr>)
               | Inr text \<Rightarrow>
                   (Inr version,
                    w\<lparr>files := (files w)(resolve version_py \<mapsto> text),
                      write_log := write_log w @ [(version_py, text)]\<rparr>)))"
proof -
  note lp = load_prior_missing[OF gone, where e=e]
  note loc = gvp_locals_explicit[OF lp refl, where a=a and g=g and ?v0.0=v0]
  have "generate_version_py e a w =
      write_version_py e w \<lparr>l_packagename = module_of p0,
          l_version = (if \<not> (case arg_release a of None \<Rightarrow> \<not> contains v0 ''dev''
                                | Some r \<Rightarrow> r) \<and> g then v0 @ git_devstr e else v0),
          l_release = (case arg_release a of None \<Rightarrow> \<not> contains v0 ''dev'' | Some r \<Rightarrow> r),
          l_debug = (case arg_debug a of None \<Rightarrow> truthy None | Some d \<Rightarrow> d),
          l_uses_git = (case arg_uses_git a of
                          None \<Rightarrow> \<not> (case arg_release a of None \<Rightarrow> \<not> contains v0 ''dev''
                                       | Some r \<Rightarrow> r)
                        | Some u \<Rightarrow> u),
          l_version_module = None, l_last_generated_version = None, l_last_githash = None,
          l_current_release = None, l_current_debug = None,
          l_version_py = version_py_path a p0\<rparr>"
    by (simp add: generate_version_py_def cfg loc)
  then have "generate_version_py e a w =
     (let release = (case arg_release a of None \<Rightarrow> \<not> contains v0 ''dev'' | Some r \<Rightarrow> r);
          version = (if \<not> release \<and> g then v0 @ git_devstr e else v0);
          debug = (case arg_debug a of Some d \<Rightarrow> d | None \<Rightarrow> False);
          uses_git = (case arg_uses_git a of None \<Rightarrow> \<not> release | Some u \<Rightarrow> u);
          version_py = version_py_path a p0
      in if \<not> writable e version_py then (Inl OSError, w)
         else (case get_version_py_str e (module_of p0) version None release debug uses_git of
                 Inl err \<Rightarrow> (Inl err, w\<lparr>files := (files w)(resolve version_py \<mapsto> [])\<rparr>)
               | Inr text \<Rightarrow>
                   (Inr version,
                    w\<lparr>files := (files w)(resolve version_py \<mapsto> text),
                      write_log := write_log w @ [(version_py, text)]\<rparr>)))"
    by (simp add: write_version_py_def Let_def truthy_def split: sum.splits
        cong: option.case_cong)
  then show ?thesis using lp by simp
qed

theorem missing_module_is_no_prior_record_witness:
  "files ex_world (resolve (prior_path ''pkg'')) = None
   \<and> load_prior ex_env ex_world (module_of ''pkg'') = Inr (None, None, None, None, None)
   \<and> (\<exists>text. get_version_py_str ex_env ''pkg'' ''1.0'' None True False False = Inr text
          \<and> generate_version_py ex_env ex_args ex_world =
              (Inr ''1.0'',
               ex_world\<lparr>files := (files ex_world)([''pkg'', ''version.py''] \<mapsto> text),
                        write_log := [(''./pkg/version.py'', text)]\<rparr>))"
proof -
  have gone: "files ex_world (resolve (prior_path ''pkg'')) = None"
    by (simp add: ex_world_def)
  obtain text' where tx: "get_version_py_str ex_env ''pkg'' ''1.0'' None True False False = Inr text'"
    using ex_text by (cases "get_version_py_str ex_env ''pkg'' ''1.0'' None True False False") auto
  note th = missing_module_is_no_prior_record[OF ex_read_config gone]
  have wrote: "generate_version_py ex_env ex_args ex_world =
      (Inr ''1.0'',
       ex_world\<lparr>files := (files ex_world)([''pkg'', ''version.py''] \<mapsto> text'),
                write_log := [(''./pkg/version.py'', text')]\<rparr>)"
    using th by (simp add: ex_facts Let_def startswith_def tx ex_world_def)
  show ?thesis using gone th tx wrote by blast
qed


subsection \<open>The static header\<close>








end
